theory Spec2Isabelle
  imports Main "HOL-Library.Word"
begin

section \<open>Configuration and construction (sentrygin.go, lines 11-54)\<close>

text \<open>
  \<^verbatim>\<open>time.Duration\<close> is a signed 64-bit count of nanoseconds; \<open>sint\<close> reads the sign.
  \<^verbatim>\<open>time.Second\<close> is the constant 1000000000.
\<close>

type_synonym duration = "64 word"

definition Second :: duration where
  "Second = 1000000000"

record Options =
  Repanic :: bool
  WaitForDelivery :: bool
  Timeout :: duration

record handler =
  repanic :: bool
  waitForDelivery :: bool
  timeout :: duration

text \<open>
  \<^verbatim>\<open>New\<close> overwrites a zero \<^verbatim>\<open>Timeout\<close> of its (by-value) argument and builds the
  receiver \<^verbatim>\<open>&handler{...}\<close> whose method \<^verbatim>\<open>handle\<close> it returns. \<open>New_handler\<close> is that
  receiver; \<open>New\<close> itself is defined below, once \<open>handle\<close> is.
\<close>

definition New_handler :: "Options \<Rightarrow> handler" where
  "New_handler opts =
     (let opts = (if Timeout opts = 0 then opts\<lparr>Timeout := 2 * Second\<rparr> else opts)
      in \<lparr>repanic = Repanic opts,
          waitForDelivery = WaitForDelivery opts,
          timeout = Timeout opts\<rparr>)"

section \<open>Requests and execution contexts\<close>

text \<open>
  A \<^verbatim>\<open>context.Context\<close> is a chain of key/value bindings, the newest first;
  \<^verbatim>\<open>context.WithValue\<close> derives a context with one more binding and \<^verbatim>\<open>Value\<close> returns
  the newest binding of a key. A request carries its context, and the recovery step
  binds the request itself into a context, hence the mutual recursion. Hubs and spans
  are pointers; the model keeps their identity.
\<close>

datatype hub = Hub nat

datatype ctx_key = HubContextKey | RequestContextKey | spanContextKey | OtherKey string

datatype ctx_value =
    HubValue hub
  | SpanValue nat
  | RequestValue http_request
  | OtherValue string
and http_request =
    HttpRequest (Method: string) (URL_Path: string)
                (Header: "(string \<times> string list) list")
                (Context: "(ctx_key \<times> ctx_value) list")

type_synonym "context" = "(ctx_key \<times> ctx_value) list"

definition WithValue :: "context \<Rightarrow> ctx_key \<Rightarrow> ctx_value \<Rightarrow> context" where
  "WithValue ctx k v = (k, v) # ctx"

definition Value :: "context \<Rightarrow> ctx_key \<Rightarrow> ctx_value option" where
  "Value ctx k = map_of ctx k"

definition WithContext :: "http_request \<Rightarrow> context \<Rightarrow> http_request" where
  "WithContext r ctx = HttpRequest (Method r) (URL_Path r) (Header r) ctx"

text \<open>The one field of \<^verbatim>\<open>gin.Context\<close> that the middleware reads and writes.\<close>

record gin_context =
  Request :: http_request

section \<open>The reporting SDK, as far as the middleware uses it\<close>

text \<open>
  Modelled from the spec: the SDK is an external collaborator, not part of this
  repository. \<^verbatim>\<open>GetHubFromContext\<close> looks the session handle up in the context and is
  absent-valued when there is none; \<^verbatim>\<open>SetHubOnContext\<close> binds a handle into a derived
  context; a span's own context is derived from the context the span was started in.
\<close>

definition GetHubFromContext :: "context \<Rightarrow> hub option" where
  "GetHubFromContext ctx =
     (case Value ctx HubContextKey of Some (HubValue hb) \<Rightarrow> Some hb | _ \<Rightarrow> None)"

definition SetHubOnContext :: "context \<Rightarrow> hub \<Rightarrow> context" where
  "SetHubOnContext ctx hb = WithValue ctx HubContextKey (HubValue hb)"

datatype span_option = TransactionName string | ContinueFromRequest http_request

record span =
  span_id :: nat
  span_Context :: "context"

text \<open>
  What the middleware cannot decide is a parameter: the clone of the process-wide hub,
  the identity of the next span, what the rest of the handler chain does with the
  request (it returns, or panics with a value), and the event identifier, possibly nil,
  that the report returns. The value of a panic is the value that \<^verbatim>\<open>recover()\<close> delivers for
  it. That value is not nil: since Go 1.21 a \<^verbatim>\<open>panic(nil)\<close> reaches \<^verbatim>\<open>recover\<close> as a
  \<^verbatim>\<open>*runtime.PanicNilError\<close>. So \<open>None\<close> of type \<open>'v option\<close> stands for the nil that
  \<^verbatim>\<open>recover()\<close> returns when no panic is in flight, and \<open>Some v\<close> for a panic.
\<close>

record 'v world =
  CurrentHub_Clone :: hub
  next_span_id :: nat
  Next :: "gin_context \<Rightarrow> gin_context \<times> 'v option"
  RecoverWithContext :: "hub \<Rightarrow> context \<Rightarrow> 'v \<Rightarrow> string option"

definition StartSpan :: "'v world \<Rightarrow> context \<Rightarrow> string \<Rightarrow> span_option list \<Rightarrow> span" where
  "StartSpan w ctx operation options =
     \<lparr>span_id = next_span_id w,
      span_Context = WithValue ctx spanContextKey (SpanValue (next_span_id w))\<rparr>"

text \<open>
  The calls that the middleware itself makes to its collaborators, in the order it makes
  them (what the rest of the chain does inside \<^verbatim>\<open>c.Next()\<close> is not recorded).
\<close>

datatype 'v event =
    EvClone hub
  | EvStartSpan "context" string "span_option list" span
  | EvSetRequest hub http_request
  | EvNext gin_context
  | EvRecoverWithContext hub "context" 'v
  | EvFlush hub duration
  | EvFinish span

section \<open>The request handler (sentrygin.go, lines 56-94)\<close>

text \<open>
  A \<^verbatim>\<open>defer\<close> statement evaluates the arguments of its call and registers the call; on
  every exit of the function, by return or by panic, the registered calls run, the
  last registered first.
\<close>

datatype deferred =
    Defer_span_Finish span
  | Defer_recoverWithSentry hub http_request

text \<open>
  \<^verbatim>\<open>recoverWithSentry\<close> runs as a deferred call, so its \<^verbatim>\<open>recover()\<close> returns the value of
  the panic in flight and stops it, or nil when there is none. The argument \<open>p\<close> is
  that state; the result is the calls made and the panic this function raises.
\<close>

definition recoverWithSentry ::
  "handler \<Rightarrow> 'v world \<Rightarrow> hub \<Rightarrow> http_request \<Rightarrow> 'v option \<Rightarrow> 'v event list \<times> 'v option" where
  "recoverWithSentry h w hb r p =
     (case p of
        None \<Rightarrow> ([], None)
      | Some err \<Rightarrow>
          (let ctx = WithValue (Context r) RequestContextKey (RequestValue r);
               eventID = RecoverWithContext w hb ctx err;
               reported = [EvRecoverWithContext hb ctx err];
               flushed = (if eventID \<noteq> None \<and> waitForDelivery h
                          then [EvFlush hb (timeout h)] else [])
           in (reported @ flushed, if repanic h then Some err else None)))"

fun run_deferred ::
  "handler \<Rightarrow> 'v world \<Rightarrow> deferred \<Rightarrow> 'v option \<Rightarrow> 'v event list \<times> 'v option" where
  "run_deferred h w (Defer_span_Finish s) p = ([EvFinish s], p)"
| "run_deferred h w (Defer_recoverWithSentry hb r) p = recoverWithSentry h w hb r p"

text \<open>The calls of \<open>ds\<close> run from the head on, each seeing the panic the previous one left.\<close>

fun run_all ::
  "handler \<Rightarrow> 'v world \<Rightarrow> deferred list \<Rightarrow> 'v option \<Rightarrow> 'v event list \<times> 'v option" where
  "run_all h w [] p = ([], p)"
| "run_all h w (d # ds) p =
     (let (t, p') = run_deferred h w d p;
          (t', p'') = run_all h w ds p'
      in (t @ t', p''))"

text \<open>
  The local variables of \<^verbatim>\<open>handle\<close> when it reaches \<^verbatim>\<open>c.Next()\<close> (lines 57-76):
  \<open>l_defers\<close> holds the deferred calls in the order of their registration.
\<close>

record 'v locals =
  l_ctx :: "context"
  l_hub :: hub
  l_span :: span
  l_c :: gin_context
  l_defers :: "deferred list"
  l_trace :: "'v event list"

definition handle_entry :: "'v world \<Rightarrow> gin_context \<Rightarrow> 'v locals" where
  "handle_entry w c =
     (let ctx = Context (Request c);
          (hb, ctx, t0) =
             (case GetHubFromContext ctx of
                None \<Rightarrow>
                  (let hb = CurrentHub_Clone w
                   in (hb, SetHubOnContext ctx hb, [EvClone hb]))
              | Some hb \<Rightarrow> (hb, ctx, []));
          options = [TransactionName (Method (Request c) @ '' '' @ URL_Path (Request c)),
                     ContinueFromRequest (Request c)];
          sp = StartSpan w ctx ''http.server'' options;
          t1 = [EvStartSpan ctx ''http.server'' options sp];
          ds = [Defer_span_Finish sp];
          c = c\<lparr>Request := WithContext (Request c) (span_Context sp)\<rparr>;
          t2 = [EvSetRequest hb (Request c)];
          ds = ds @ [Defer_recoverWithSentry hb (Request c)]
      in \<lparr>l_ctx = ctx, l_hub = hb, l_span = sp, l_c = c, l_defers = ds,
          l_trace = t0 @ t1 @ t2\<rparr>)"

text \<open>The deferred calls in the order in which they run on exit.\<close>

definition exit_order :: "'v world \<Rightarrow> gin_context \<Rightarrow> deferred list" where
  "exit_order w c = rev (l_defers (handle_entry w c))"

text \<open>
  The outcome of one call of \<^verbatim>\<open>handle\<close>: the calls made, the \<^verbatim>\<open>gin.Context\<close> as it is
  left, and \<open>panicked\<close>, the value of the panic that leaves \<^verbatim>\<open>handle\<close> (\<open>None\<close> when it
  returns normally).
\<close>

record 'v outcome =
  trace :: "'v event list"
  final_c :: gin_context
  panicked :: "'v option"

definition handle :: "handler \<Rightarrow> 'v world \<Rightarrow> gin_context \<Rightarrow> 'v outcome" where
  "handle h w c =
     (let l = handle_entry w c;
          (c', p) = Next w (l_c l);
          (t, p') = run_all h w (exit_order w c) p
      in \<lparr>trace = l_trace l @ [EvNext (l_c l)] @ t, final_c = c', panicked = p'\<rparr>)"

definition New :: "Options \<Rightarrow> 'v world \<Rightarrow> gin_context \<Rightarrow> 'v outcome" where
  "New opts = handle (New_handler opts)"

section \<open>Observations on a run\<close>

text \<open>Which call an event records.\<close>

fun is_start :: "'v event \<Rightarrow> bool" where
  "is_start (EvStartSpan ctx operation options s) = True"
| "is_start e = False"

fun is_report :: "'v event \<Rightarrow> bool" where
  "is_report (EvRecoverWithContext hb ctx v) = True"
| "is_report e = False"

fun is_flush :: "'v event \<Rightarrow> bool" where
  "is_flush (EvFlush hb d) = True"
| "is_flush e = False"

fun is_finish :: "'v event \<Rightarrow> bool" where
  "is_finish (EvFinish s) = True"
| "is_finish e = False"

fun is_clone :: "'v event \<Rightarrow> bool" where
  "is_clone (EvClone hb) = True"
| "is_clone e = False"

fun is_next :: "'v event \<Rightarrow> bool" where
  "is_next (EvNext c) = True"
| "is_next e = False"

fun is_span_Finish :: "deferred \<Rightarrow> bool" where
  "is_span_Finish (Defer_span_Finish s) = True"
| "is_span_Finish d = False"

fun is_recoverWithSentry :: "deferred \<Rightarrow> bool" where
  "is_recoverWithSentry (Defer_recoverWithSentry hb r) = True"
| "is_recoverWithSentry d = False"

text \<open>
  \<open>precedes P Q xs\<close>: the list has an element satisfying \<open>Q\<close>, and before the first
  such element it has one satisfying \<open>P\<close>.
\<close>

fun precedes :: "('a \<Rightarrow> bool) \<Rightarrow> ('a \<Rightarrow> bool) \<Rightarrow> 'a list \<Rightarrow> bool" where
  "precedes P Q [] = False"
| "precedes P Q (x # xs) =
     (if Q x then False else if P x then list_ex Q xs else precedes P Q xs)"

subsection \<open>Concrete requests, collaborators and configurations\<close>

definition request_orders :: http_request where
  "request_orders = HttpRequest ''GET'' ''/orders/42'' [] []"

definition c_orders :: gin_context where
  "c_orders = \<lparr>Request = request_orders\<rparr>"

definition request_pay :: http_request where
  "request_pay =
     HttpRequest ''POST'' ''/pay'' [(''sentry-trace'', [''0af7651916cd43dd-b7ad6b71-1''])]
       [(OtherKey ''user'', OtherValue ''ann''), (HubContextKey, HubValue (Hub 5))]"

definition c_pay :: gin_context where
  "c_pay = \<lparr>Request = request_pay\<rparr>"

text \<open>A chain that panics with the value \<open>''boom''\<close>, and a report that is accepted.\<close>

definition world_boom :: "string world" where
  "world_boom =
     \<lparr>CurrentHub_Clone = Hub 1, next_span_id = 7,
      Next = (\<lambda>c. (c, Some ''boom'')),
      RecoverWithContext = (\<lambda>hb ctx v. Some ''4c79f60c11214eb38604f4ae0781bfb2'')\<rparr>"

text \<open>The same panic, with a report that returns no event identifier.\<close>

definition world_dropped :: "string world" where
  "world_dropped =
     \<lparr>CurrentHub_Clone = Hub 1, next_span_id = 7,
      Next = (\<lambda>c. (c, Some ''boom'')),
      RecoverWithContext = (\<lambda>hb ctx v. None)\<rparr>"

text \<open>A chain that returns normally.\<close>

definition world_quiet :: "string world" where
  "world_quiet =
     \<lparr>CurrentHub_Clone = Hub 1, next_span_id = 7,
      Next = (\<lambda>c. (c, None)),
      RecoverWithContext = (\<lambda>hb ctx v. Some ''4c79f60c11214eb38604f4ae0781bfb2'')\<rparr>"

definition opts_absorb :: Options where
  "opts_absorb = \<lparr>Repanic = False, WaitForDelivery = True, Timeout = 500000000\<rparr>"

definition opts_repanic :: Options where
  "opts_repanic = \<lparr>Repanic = True, WaitForDelivery = False, Timeout = 0\<rparr>"

definition opts_negative :: Options where
  "opts_negative = \<lparr>Repanic = True, WaitForDelivery = True, Timeout = - 1\<rparr>"

section \<open>The shape of every run\<close>

lemma l_defers_entry:
  "l_defers (handle_entry w c) =
     [Defer_span_Finish (l_span (handle_entry w c)),
      Defer_recoverWithSentry (l_hub (handle_entry w c)) (Request (l_c (handle_entry w c)))]"
  by (simp add: handle_entry_def Let_def split: option.split)

lemma exit_order_entry:
  "exit_order w c =
     [Defer_recoverWithSentry (l_hub (handle_entry w c)) (Request (l_c (handle_entry w c))),
      Defer_span_Finish (l_span (handle_entry w c))]"
  by (simp add: exit_order_def l_defers_entry)

lemma run_all_exit_order:
  "run_all h w (exit_order w c) p =
     (fst (recoverWithSentry h w (l_hub (handle_entry w c)) (Request (l_c (handle_entry w c))) p)
        @ [EvFinish (l_span (handle_entry w c))],
      snd (recoverWithSentry h w (l_hub (handle_entry w c)) (Request (l_c (handle_entry w c))) p))"
  by (simp add: exit_order_entry split: prod.split)

lemma handle_trace:
  "trace (handle h w c) =
     l_trace (handle_entry w c) @ [EvNext (l_c (handle_entry w c))]
       @ fst (recoverWithSentry h w (l_hub (handle_entry w c)) (Request (l_c (handle_entry w c)))
                (snd (Next w (l_c (handle_entry w c)))))
       @ [EvFinish (l_span (handle_entry w c))]"
  by (simp add: handle_def Let_def run_all_exit_order split: prod.split)

lemma handle_panicked:
  "panicked (handle h w c) =
     snd (recoverWithSentry h w (l_hub (handle_entry w c)) (Request (l_c (handle_entry w c)))
            (snd (Next w (l_c (handle_entry w c)))))"
  by (simp add: handle_def Let_def run_all_exit_order split: prod.split)

lemma l_hub_entry:
  "l_hub (handle_entry w c) =
     (case GetHubFromContext (Context (Request c)) of
        None \<Rightarrow> CurrentHub_Clone w | Some hb \<Rightarrow> hb)"
  by (simp add: handle_entry_def Let_def split: option.split)

lemma l_ctx_entry:
  "l_ctx (handle_entry w c) =
     (case GetHubFromContext (Context (Request c)) of
        None \<Rightarrow> SetHubOnContext (Context (Request c)) (CurrentHub_Clone w)
      | Some hb \<Rightarrow> Context (Request c))"
  by (simp add: handle_entry_def Let_def split: option.split)

lemma l_span_entry:
  "l_span (handle_entry w c) =
     StartSpan w (l_ctx (handle_entry w c)) ''http.server''
       [TransactionName (Method (Request c) @ '' '' @ URL_Path (Request c)),
        ContinueFromRequest (Request c)]"
  by (simp add: handle_entry_def Let_def split: option.split)

lemma l_c_entry:
  "l_c (handle_entry w c) =
     c\<lparr>Request := WithContext (Request c) (span_Context (l_span (handle_entry w c)))\<rparr>"
  by (simp add: handle_entry_def Let_def split: option.split)

lemma l_trace_entry:
  "l_trace (handle_entry w c) =
     (case GetHubFromContext (Context (Request c)) of
        None \<Rightarrow> [EvClone (CurrentHub_Clone w)] | Some hb \<Rightarrow> [])
     @ [EvStartSpan (l_ctx (handle_entry w c)) ''http.server''
          [TransactionName (Method (Request c) @ '' '' @ URL_Path (Request c)),
           ContinueFromRequest (Request c)]
          (l_span (handle_entry w c)),
        EvSetRequest (l_hub (handle_entry w c)) (Request (l_c (handle_entry w c)))]"
  by (simp add: handle_entry_def Let_def split: option.split)

lemma recoverWithSentry_None: "recoverWithSentry h w hb r None = ([], None)"
  by (simp add: recoverWithSentry_def)

lemma recoverWithSentry_Some:
  "recoverWithSentry h w hb r (Some err) =
     ([EvRecoverWithContext hb (WithValue (Context r) RequestContextKey (RequestValue r)) err]
        @ (if RecoverWithContext w hb (WithValue (Context r) RequestContextKey (RequestValue r)) err \<noteq> None
              \<and> waitForDelivery h
           then [EvFlush hb (timeout h)] else []),
      if repanic h then Some err else None)"
  by (simp add: recoverWithSentry_def Let_def)

section \<open>Properties of the middleware\<close>

text \<open>
  C9: \<^verbatim>\<open>New\<close> resolves a zero \<^verbatim>\<open>Timeout\<close> to 2 seconds (2000000000 ns), keeps a
  non-zero one, and carries \<^verbatim>\<open>Repanic\<close> and \<^verbatim>\<open>WaitForDelivery\<close> over unchanged into the
  handler it returns.
\<close>

theorem New_resolves_Timeout:
  "(Timeout opts = 0 \<longrightarrow> timeout (New_handler opts) = 2000000000)
   \<and> (Timeout opts \<noteq> 0 \<longrightarrow> timeout (New_handler opts) = Timeout opts)
   \<and> repanic (New_handler opts) = Repanic opts
   \<and> waitForDelivery (New_handler opts) = WaitForDelivery opts"
  by (simp add: New_handler_def Second_def Let_def)

theorem New_resolves_Timeout_witness:
  "Timeout opts_repanic = 0 \<and> timeout (New_handler opts_repanic) = 2000000000
   \<and> Timeout opts_absorb \<noteq> 0 \<and> timeout (New_handler opts_absorb) = 500000000
   \<and> repanic (New_handler opts_repanic) \<and> \<not> waitForDelivery (New_handler opts_repanic)
   \<and> \<not> repanic (New_handler opts_absorb) \<and> waitForDelivery (New_handler opts_absorb)"
  using New_resolves_Timeout [of opts_repanic] New_resolves_Timeout [of opts_absorb]
  by (simp add: opts_repanic_def opts_absorb_def)



text \<open>
  C2, as stated, fails: for the request \<open>GET /orders/42\<close> whose chain panics, the
  span-closing call does not run before the recovery call, neither in the order of
  the deferred calls nor in the calls they make; the same holds when the chain returns.
\<close>

theorem span_Finish_before_recovery_counterexample:
  "\<not> precedes is_span_Finish is_recoverWithSentry (exit_order world_boom c_orders)
   \<and> \<not> precedes is_span_Finish is_recoverWithSentry (exit_order world_quiet c_orders)
   \<and> \<not> precedes is_finish is_report
         (trace (handle (New_handler opts_absorb) world_boom c_orders))
   \<and> precedes is_report is_finish
         (trace (handle (New_handler opts_absorb) world_boom c_orders))"
  by (simp add: exit_order_entry handle_trace l_trace_entry recoverWithSentry_Some
        world_boom_def split: option.split)

text \<open>
  C2, amended: \<^verbatim>\<open>handle\<close> registers the span-closing call first (line 71) and the
  recovery call second (line 76); the deferred calls run in the reverse order of
  their registration, so on every exit the recovery call runs before the span-closing
  call: the calls of the recovery step, if any, come between the call of the next
  handler and the closing of the span, which is the last call of every run, and the
  panic that leaves \<^verbatim>\<open>handle\<close> is the one the recovery step raises.
\<close>

theorem recovery_runs_before_span_Finish:
  fixes w :: "'v world" and c :: gin_context
  defines "l \<equiv> handle_entry w c"
  shows "l_defers l =
           [Defer_span_Finish (l_span l), Defer_recoverWithSentry (l_hub l) (Request (l_c l))]
         \<and> exit_order w c = rev (l_defers l)
         \<and> precedes is_recoverWithSentry is_span_Finish (exit_order w c)
         \<and> trace (handle h w c) =
             l_trace l @ [EvNext (l_c l)]
               @ fst (recoverWithSentry h w (l_hub l) (Request (l_c l)) (snd (Next w (l_c l))))
               @ [EvFinish (l_span l)]
         \<and> panicked (handle h w c) =
             snd (recoverWithSentry h w (l_hub l) (Request (l_c l)) (snd (Next w (l_c l))))"
  unfolding l_def
  by (simp add: handle_trace handle_panicked exit_order_entry l_defers_entry)



text \<open>
  C4: without \<^verbatim>\<open>Repanic\<close>, a panic of the rest of the chain does not leave the handler
  built by \<^verbatim>\<open>New\<close>: the handler returns normally.
\<close>

theorem no_Repanic_absorbs_the_panic:
  assumes "\<not> Repanic opts"
    and "snd (Next w (l_c (handle_entry w c))) = Some v"
  shows "panicked (New opts w c) = None"
  using assms
  by (simp add: New_def handle_panicked recoverWithSentry_Some New_handler_def Let_def)

theorem no_Repanic_absorbs_the_panic_witness:
  "\<not> Repanic opts_absorb
   \<and> snd (Next world_boom (l_c (handle_entry world_boom c_orders))) = Some ''boom''
   \<and> panicked (New opts_absorb world_boom c_orders) = None"
  using no_Repanic_absorbs_the_panic [of opts_absorb world_boom c_orders "''boom''"]
  by (simp add: opts_absorb_def world_boom_def)

text \<open>
  C5: when the rest of the chain panics, the run of the handler built by \<^verbatim>\<open>New\<close> calls
  \<^verbatim>\<open>Flush\<close> if and only if the report returned an event identifier and
  \<^verbatim>\<open>WaitForDelivery\<close> is set; it then calls it once, on the request's hub, with the
  handler's timeout, right after the report. In every other case there is no such call.
\<close>

theorem Flush_iff_eventID_and_WaitForDelivery:
  fixes w :: "'v world" and c :: gin_context
  defines "hb \<equiv> l_hub (handle_entry w c)"
    and "r \<equiv> Request (l_c (handle_entry w c))"
  defines "ctx \<equiv> WithValue (Context r) RequestContextKey (RequestValue r)"
  assumes "snd (Next w (l_c (handle_entry w c))) = Some v"
  shows "(list_ex is_flush (trace (New opts w c))
            \<longleftrightarrow> RecoverWithContext w hb ctx v \<noteq> None \<and> WaitForDelivery opts)
         \<and> filter is_flush (trace (New opts w c)) =
             (if RecoverWithContext w hb ctx v \<noteq> None \<and> WaitForDelivery opts
              then [EvFlush hb (timeout (New_handler opts))] else [])
         \<and> fst (recoverWithSentry (New_handler opts) w hb r (Some v)) =
             EvRecoverWithContext hb ctx v # filter is_flush (trace (New opts w c))"
  using assms(4) unfolding hb_def r_def ctx_def
  by (simp add: New_def handle_trace l_trace_entry recoverWithSentry_Some
        New_handler_def Let_def split: option.split)

theorem Flush_iff_eventID_and_WaitForDelivery_witness:
  "snd (Next world_boom (l_c (handle_entry world_boom c_orders))) = Some ''boom''
   \<and> filter is_flush (trace (New opts_absorb world_boom c_orders)) =
       [EvFlush (Hub 1) 500000000]
   \<and> filter is_flush (trace (New opts_absorb world_dropped c_orders)) = []
   \<and> filter is_flush (trace (New opts_repanic world_boom c_orders)) = []"
  using Flush_iff_eventID_and_WaitForDelivery [of world_boom c_orders "''boom''" opts_absorb]
    Flush_iff_eventID_and_WaitForDelivery [of world_dropped c_orders "''boom''" opts_absorb]
    Flush_iff_eventID_and_WaitForDelivery [of world_boom c_orders "''boom''" opts_repanic]
  by (simp add: world_boom_def world_dropped_def opts_absorb_def opts_repanic_def
        c_orders_def request_orders_def l_hub_entry GetHubFromContext_def Value_def
        New_handler_def Let_def)

text \<open>
  C6: when the rest of the chain returns, the run of \<^verbatim>\<open>handle\<close> starts exactly one span
  and finishes exactly one, the same one; it makes no report and no flush, the recovery
  step does nothing, and \<^verbatim>\<open>handle\<close> returns normally.
\<close>

theorem no_panic_one_span_no_report:
  fixes w :: "'v world" and c :: gin_context
  defines "l \<equiv> handle_entry w c"
  assumes "snd (Next w (l_c (handle_entry w c))) = None"
  shows "filter is_start (trace (handle h w c)) =
           [EvStartSpan (l_ctx l) ''http.server''
              [TransactionName (Method (Request c) @ '' '' @ URL_Path (Request c)),
               ContinueFromRequest (Request c)]
              (l_span l)]
         \<and> filter is_finish (trace (handle h w c)) = [EvFinish (l_span l)]
         \<and> filter is_report (trace (handle h w c)) = []
         \<and> filter is_flush (trace (handle h w c)) = []
         \<and> recoverWithSentry h w (l_hub l) (Request (l_c l)) (snd (Next w (l_c l))) = ([], None)
         \<and> panicked (handle h w c) = None"
  using assms(2) unfolding l_def
  by (simp add: handle_trace handle_panicked l_trace_entry recoverWithSentry_None
        split: option.split)

theorem no_panic_one_span_no_report_witness:
  "snd (Next world_quiet (l_c (handle_entry world_quiet c_pay))) = None
   \<and> length (filter is_start (trace (handle (New_handler opts_repanic) world_quiet c_pay))) = 1
   \<and> filter is_finish (trace (handle (New_handler opts_repanic) world_quiet c_pay)) =
       [EvFinish \<lparr>span_id = 7,
          span_Context = [(spanContextKey, SpanValue 7), (OtherKey ''user'', OtherValue ''ann''),
                          (HubContextKey, HubValue (Hub 5))]\<rparr>]
   \<and> filter is_report (trace (handle (New_handler opts_repanic) world_quiet c_pay)) = []
   \<and> panicked (handle (New_handler opts_repanic) world_quiet c_pay) = None"
  using no_panic_one_span_no_report [of world_quiet c_pay "New_handler opts_repanic"]
  by (simp add: world_quiet_def c_pay_def request_pay_def l_span_entry l_ctx_entry
        StartSpan_def GetHubFromContext_def Value_def WithValue_def)

text \<open>
  C7: when the incoming request's context holds no hub, \<^verbatim>\<open>handle\<close> clones the process-wide
  hub once, binds the clone into a derived context, in which it starts the span, and the
  clone is the hub found in the context of the request that the next handler receives.
  When the context already holds a hub, nothing is cloned: that hub is used, the span
  starts in the incoming context, and the next handler finds the same hub.
\<close>

theorem hub_created_only_when_absent:
  fixes w :: "'v world" and c :: gin_context
  defines "l \<equiv> handle_entry w c"
  shows "(GetHubFromContext (Context (Request c)) = None \<longrightarrow>
            filter is_clone (trace (handle h w c)) = [EvClone (CurrentHub_Clone w)]
          \<and> l_hub l = CurrentHub_Clone w
          \<and> l_ctx l = SetHubOnContext (Context (Request c)) (CurrentHub_Clone w)
          \<and> GetHubFromContext (Context (Request (l_c l))) = Some (CurrentHub_Clone w))
         \<and> (\<forall>hb. GetHubFromContext (Context (Request c)) = Some hb \<longrightarrow>
            filter is_clone (trace (handle h w c)) = []
          \<and> l_hub l = hb
          \<and> l_ctx l = Context (Request c)
          \<and> GetHubFromContext (Context (Request (l_c l))) = Some hb)
         \<and> filter is_next (trace (handle h w c)) = [EvNext (l_c l)]
         \<and> filter is_start (trace (handle h w c)) =
             [EvStartSpan (l_ctx l) ''http.server''
                [TransactionName (Method (Request c) @ '' '' @ URL_Path (Request c)),
                 ContinueFromRequest (Request c)]
                (l_span l)]"
proof -
  have fl: "filter is_clone (fst (recoverWithSentry h w hb r p)) = []"
    "filter is_next (fst (recoverWithSentry h w hb r p)) = []"
    "filter is_start (fst (recoverWithSentry h w hb r p)) = []" for hb r p
    by (cases p; simp add: recoverWithSentry_None recoverWithSentry_Some)+
  have ctx: "GetHubFromContext (Context (Request (l_c (handle_entry w c)))) =
               GetHubFromContext (l_ctx (handle_entry w c))"
    by (simp add: l_c_entry l_span_entry StartSpan_def WithContext_def
          GetHubFromContext_def Value_def WithValue_def)
  show ?thesis
    unfolding l_def ctx
    by (simp add: handle_trace l_trace_entry l_hub_entry l_ctx_entry fl
          SetHubOnContext_def GetHubFromContext_def Value_def WithValue_def
          split: option.split)
qed

theorem hub_created_only_when_absent_witness:
  "GetHubFromContext (Context (Request c_orders)) = None
   \<and> filter is_clone (trace (handle (New_handler opts_absorb) world_boom c_orders)) =
       [EvClone (Hub 1)]
   \<and> GetHubFromContext (Context (Request (l_c (handle_entry world_boom c_orders)))) =
       Some (Hub 1)
   \<and> GetHubFromContext (Context (Request c_pay)) = Some (Hub 5)
   \<and> filter is_clone (trace (handle (New_handler opts_absorb) world_boom c_pay)) = []
   \<and> GetHubFromContext (Context (Request (l_c (handle_entry world_boom c_pay)))) =
       Some (Hub 5)"
  using hub_created_only_when_absent
          [where w = world_boom and c = c_orders and h = "New_handler opts_absorb"]
    hub_created_only_when_absent
          [where w = world_boom and c = c_pay and h = "New_handler opts_absorb"]
  by (simp add: c_orders_def request_orders_def c_pay_def request_pay_def world_boom_def
        GetHubFromContext_def Value_def)

text \<open>
  C8: every run of \<^verbatim>\<open>handle\<close> consists of the cloning of the hub, if any, then the start
  of a span of operation \<open>http.server\<close> named by the request's method, one space and the
  URL path, continuing from the incoming request, then the recording of the request on
  the hub's scope, then the call of the next handler, and then the deferred calls. The
  request recorded and passed on is the incoming request under the span's context.
\<close>

theorem span_named_and_context_replaced:
  fixes w :: "'v world" and c :: gin_context
  defines "l \<equiv> handle_entry w c"
  shows "trace (handle h w c) =
           filter is_clone (trace (handle h w c))
           @ [EvStartSpan (l_ctx l) ''http.server''
                [TransactionName (Method (Request c) @ '' '' @ URL_Path (Request c)),
                 ContinueFromRequest (Request c)]
                (l_span l),
              EvSetRequest (l_hub l) (Request (l_c l)),
              EvNext (l_c l)]
           @ fst (run_all h w (exit_order w c) (snd (Next w (l_c l))))
         \<and> l_span l =
             StartSpan w (l_ctx l) ''http.server''
               [TransactionName (Method (Request c) @ '' '' @ URL_Path (Request c)),
                ContinueFromRequest (Request c)]
         \<and> l_c l = c\<lparr>Request := WithContext (Request c) (span_Context (l_span l))\<rparr>
         \<and> Context (Request (l_c l)) = span_Context (l_span l)
         \<and> Method (Request (l_c l)) = Method (Request c)
         \<and> URL_Path (Request (l_c l)) = URL_Path (Request c)
         \<and> Header (Request (l_c l)) = Header (Request c)"
proof -
  have fl: "filter is_clone (fst (recoverWithSentry h w hb r p)) = []" for hb r p
    by (cases p; simp add: recoverWithSentry_None recoverWithSentry_Some)
  have sp: "l_span (handle_entry w c) =
             StartSpan w (l_ctx (handle_entry w c)) ''http.server''
               [TransactionName (Method (Request c) @ '' '' @ URL_Path (Request c)),
                ContinueFromRequest (Request c)]"
    by (rule l_span_entry)
  have lc: "l_c (handle_entry w c) =
              c\<lparr>Request := WithContext (Request c) (span_Context (l_span (handle_entry w c)))\<rparr>"
    by (rule l_c_entry)
  have rq: "Request (l_c (handle_entry w c)) =
              WithContext (Request c) (span_Context (l_span (handle_entry w c)))"
    by (simp add: l_c_entry)
  have tr: "trace (handle h w c) =
           filter is_clone (trace (handle h w c))
           @ [EvStartSpan (l_ctx (handle_entry w c)) ''http.server''
                [TransactionName (Method (Request c) @ '' '' @ URL_Path (Request c)),
                 ContinueFromRequest (Request c)]
                (l_span (handle_entry w c)),
              EvSetRequest (l_hub (handle_entry w c)) (Request (l_c (handle_entry w c))),
              EvNext (l_c (handle_entry w c))]
           @ fst (run_all h w (exit_order w c) (snd (Next w (l_c (handle_entry w c)))))"
    by (simp add: handle_trace l_trace_entry run_all_exit_order fl split: option.split)
  have fields: "Context (Request (l_c (handle_entry w c))) = span_Context (l_span (handle_entry w c))"
    "Method (Request (l_c (handle_entry w c))) = Method (Request c)"
    "URL_Path (Request (l_c (handle_entry w c))) = URL_Path (Request c)"
    "Header (Request (l_c (handle_entry w c))) = Header (Request c)"
    by (simp_all add: rq WithContext_def)
  from tr sp lc fields show ?thesis
    unfolding l_def by blast
qed

theorem span_named_and_context_replaced_witness:
  "l_span (handle_entry world_boom c_orders) =
     \<lparr>span_id = 7,
      span_Context = [(spanContextKey, SpanValue 7), (HubContextKey, HubValue (Hub 1))]\<rparr>
   \<and> l_c (handle_entry world_boom c_orders) =
       \<lparr>Request = HttpRequest ''GET'' ''/orders/42'' []
          [(spanContextKey, SpanValue 7), (HubContextKey, HubValue (Hub 1))]\<rparr>"
  using span_named_and_context_replaced
          [where w = world_boom and c = c_orders and h = "New_handler opts_absorb",
           THEN conjunct2]
  by (simp add: l_ctx_entry StartSpan_def SetHubOnContext_def GetHubFromContext_def
        Value_def WithValue_def WithContext_def c_orders_def request_orders_def
        world_boom_def)

text \<open>
  C10: a negative \<^verbatim>\<open>Timeout\<close> is not zero, so \<^verbatim>\<open>New\<close> keeps it instead of the 2 seconds,
  and it is the duration of every \<^verbatim>\<open>Flush\<close> of the handler: when the rest of the chain
  panics, the report returns an event identifier and \<^verbatim>\<open>WaitForDelivery\<close> is set, the one
  \<^verbatim>\<open>Flush\<close> made is given that negative duration.
\<close>

theorem negative_Timeout_kept_and_flushed:
  fixes w :: "'v world" and c :: gin_context
  defines "hb \<equiv> l_hub (handle_entry w c)"
    and "r \<equiv> Request (l_c (handle_entry w c))"
  assumes "sint (Timeout opts) < 0"
  shows "timeout (New_handler opts) = Timeout opts
         \<and> timeout (New_handler opts) \<noteq> 2 * Second
         \<and> (\<forall>hb' d. EvFlush hb' d \<in> set (trace (New opts w c)) \<longrightarrow> d = Timeout opts)
         \<and> (snd (Next w (l_c (handle_entry w c))) = Some v
              \<and> RecoverWithContext w hb
                   (WithValue (Context r) RequestContextKey (RequestValue r)) v \<noteq> None
              \<and> WaitForDelivery opts
            \<longrightarrow> filter is_flush (trace (New opts w c)) = [EvFlush hb (Timeout opts)])"
proof -
  from assms(3) have nz: "Timeout opts \<noteq> 0"
    by auto
  have keep: "timeout (New_handler opts) = Timeout opts"
    using nz by (simp add: New_handler_def)
  have "sint (2 * Second) = 2000000000"
    by (simp add: Second_def)
  with assms(3) have ne: "Timeout opts \<noteq> 2 * Second"
    by auto
  have all: "d = Timeout opts" if "EvFlush hb' d \<in> set (trace (New opts w c))" for hb' d
    using that keep
    by (cases "snd (Next w (l_c (handle_entry w c)))")
       (auto simp: New_def handle_trace l_trace_entry recoverWithSentry_None
          recoverWithSentry_Some split: option.splits if_splits)
  have one: "filter is_flush (trace (New opts w c)) = [EvFlush hb (Timeout opts)]"
    if "snd (Next w (l_c (handle_entry w c))) = Some v"
      and "RecoverWithContext w hb
             (WithValue (Context r) RequestContextKey (RequestValue r)) v \<noteq> None"
      and "WaitForDelivery opts"
    using that keep unfolding hb_def r_def
    by (simp add: New_def handle_trace l_trace_entry recoverWithSentry_Some
          New_handler_def Let_def split: option.split)
  from keep ne all one show ?thesis
    by auto
qed

theorem negative_Timeout_kept_and_flushed_witness:
  "sint (Timeout opts_negative) < 0
   \<and> timeout (New_handler opts_negative) = - 1
   \<and> filter is_flush (trace (New opts_negative world_boom c_orders)) = [EvFlush (Hub 1) (- 1)]"
  using negative_Timeout_kept_and_flushed
          [where opts = opts_negative and w = world_boom and c = c_orders and v = "''boom''"]
  by (simp add: opts_negative_def world_boom_def l_hub_entry c_orders_def request_orders_def
        GetHubFromContext_def Value_def)

end
